theory Spec2Isabelle
  imports Main
begin

section \<open>Authentication controller of the shop server\<close>

text \<open>
  A shallow embedding of \<^verbatim>\<open>src/controllers/authController.js\<close>. Every handler is a
  function from the collaborators it calls, the user collection and the request to the
  collection after the request, the log of the documents it saved, the response it built
  and the way it ended: a response sent, \<^verbatim>\<open>next(new ErrorHandler(message, status))\<close>, or
  an exception that leaves the handler.
\<close>

subsection \<open>Data model\<close>

text \<open>The status constants imported from \<^verbatim>\<open>config/statusCodes\<close>, by name.\<close>

datatype status =
    STATUS_BAD_REQUEST
  | STATUS_UNAUTHORIZED
  | STATUS_OK
  | STATUS_CREATED
  | STATUS_NOT_FOUND
  | STATUS_INTERNAL
  | STATUS_FORBIDDEN

text \<open>
  A user document. \<open>uid\<close> is the field \<^verbatim>\<open>_id\<close>; \<open>password\<close> holds what is stored, the
  hash; a field that is \<^verbatim>\<open>undefined\<close> is \<open>None\<close>; the expiration is in milliseconds.
\<close>

record user =
  uid :: string
  username :: string
  name :: string
  email :: string
  password :: string
  refreshToken :: "string option"
  resetPasswordToken :: "string option"
  resetPasswordExpiration :: "int option"

text \<open>
  The parts of a request the handlers read: \<^verbatim>\<open>req.body\<close>, \<^verbatim>\<open>req.cookies.jwt\<close>,
  \<^verbatim>\<open>req.params.token\<close>, \<^verbatim>\<open>req.user.id\<close>, \<^verbatim>\<open>req.protocol\<close> and \<^verbatim>\<open>req.get('host')\<close>.
\<close>

record request =
  body_username :: "string option"
  body_password :: "string option"
  body_newPassword :: "string option"
  body_email :: "string option"
  cookies_jwt :: "string option"
  params_token :: "string option"
  user_id :: string
  protocol :: string
  host :: "string option"

datatype json = JBool bool | JStr string | JObj "(string \<times> json) list"

datatype cookie_op = SetCookie string string | ClearCookie string

record response =
  status_code :: "status option"
  body :: "(string \<times> json) list option"
  cookie_ops :: "cookie_op list"

datatype exn = TypeError | ValidationError | WriteError

text \<open>
  How a handler ends: \<open>Sent\<close> after \<^verbatim>\<open>res.status(..).json(..)\<close>, \<open>Next m s\<close> for
  \<^verbatim>\<open>next(new ErrorHandler(m, s))\<close>, \<open>Threw e\<close> when an exception leaves the handler.
\<close>

datatype signal = Sent | Next string status | Threw exn

record result =
  store :: "user list"
  saves :: "(user \<times> bool) list"
  res :: response
  signal :: signal

text \<open>What \<^verbatim>\<open>jwt.verify\<close> hands to its callback: \<^verbatim>\<open>err\<close> and \<^verbatim>\<open>decoded\<close>.\<close>

datatype jwt_error = JsonWebTokenError | TokenExpiredError

record payload =
  claim_id :: "string option"

record mail =
  mail_email :: string
  mail_subject :: string
  mail_message :: string

text \<open>
  The collaborators outside the controller, as parameters: the password comparison and the
  hashing hook of the user model, its validation, the digest of \<^verbatim>\<open>crypto\<close>, the token
  library, the signing methods of the user model, the random reset token with its window,
  and the mail transport (\<open>False\<close> when \<^verbatim>\<open>sendEmail\<close> rejects).
\<close>

record env =
  comparePassword :: "string \<Rightarrow> string \<Rightarrow> bool"
  hashPassword :: "string \<Rightarrow> string"
  validate :: "user \<Rightarrow> bool"
  sha256 :: "string \<Rightarrow> string"
  jwt_verify :: "string \<Rightarrow> jwt_error option \<times> payload option"
  signAccessToken :: "user \<Rightarrow> string"
  signRefreshToken :: "user \<Rightarrow> string"
  randomBytes :: string
  resetWindow :: int
  sendEmail :: "mail \<Rightarrow> bool"

subsection \<open>The collection\<close>

text \<open>\<^verbatim>\<open>!x\<close> on a string that may be \<^verbatim>\<open>undefined\<close>.\<close>

fun falsy :: "string option \<Rightarrow> bool" where
  "falsy None = True"
| "falsy (Some s) = (s = [])"

text \<open>A template literal prints \<^verbatim>\<open>undefined\<close> for an absent value.\<close>

fun interp :: "string option \<Rightarrow> string" where
  "interp None = ''undefined''"
| "interp (Some s) = s"

text \<open>\<^verbatim>\<open>User.findOne(query)\<close>: the first document that matches.\<close>

definition findOne :: "(user \<Rightarrow> bool) \<Rightarrow> user list \<Rightarrow> user option" where
  "findOne q db = List.find q db"

definition findById :: "string \<Rightarrow> user list \<Rightarrow> user option" where
  "findById i db = findOne (\<lambda>u. uid u = i) db"

text \<open>
  The query of \<^verbatim>\<open>resetPassword\<close>: the stored hash equals \<open>h\<close> and the expiration is
  greater than \<open>now\<close>; a document without the field does not match \<^verbatim>\<open>$gt\<close>.
\<close>

definition resetQuery :: "string \<Rightarrow> int \<Rightarrow> user \<Rightarrow> bool" where
  "resetQuery h now u =
     (resetPasswordToken u = Some h \<and>
      (case resetPasswordExpiration u of None \<Rightarrow> False | Some e \<Rightarrow> now < e))"

text \<open>Writing a document back replaces the stored document with its \<^verbatim>\<open>_id\<close>.\<close>

fun updateOne :: "user \<Rightarrow> user list \<Rightarrow> user list" where
  "updateOne u [] = []"
| "updateOne u (v # vs) = (if uid v = uid u then u # vs else v # updateOne u vs)"

text \<open>
  Modelled from the spec: the pre-save hook of the user model (\<^verbatim>\<open>models/user\<close>), which
  replaces a password that was assigned since the last save by its hash (sections 4.3, 4.6
  and 4.7).
\<close>

definition preSave :: "env \<Rightarrow> bool \<Rightarrow> user \<Rightarrow> user" where
  "preSave env passwordModified u =
     (if passwordModified then u\<lparr>password := hashPassword env (password u)\<rparr> else u)"

text \<open>
  \<^verbatim>\<open>doc.save(options)\<close>. With \<open>validateBeforeSave\<close> the document is validated first and
  a failure rejects (\<open>None\<close>); then the hook runs and the document is written. The
  function returns the document as it is in memory afterwards and the collection.
\<close>

definition save :: "env \<Rightarrow> bool \<Rightarrow> bool \<Rightarrow> user \<Rightarrow> user list \<Rightarrow> (user \<times> user list) option" where
  "save env validateBeforeSave passwordModified u db =
     (if validateBeforeSave \<and> \<not> validate env u then None
      else
        let u' = preSave env passwordModified u
        in Some (u', updateOne u' db))"

text \<open>
  A save whose write the database may reject: \<open>accepts d\<close> tells whether the write of
  the document \<open>d\<close> goes through. A rejected write leaves the collection as it was and
  the awaited \<^verbatim>\<open>save\<close> rejects with that error.
\<close>

definition trySave ::
  "env \<Rightarrow> (user \<Rightarrow> bool) \<Rightarrow> bool \<Rightarrow> bool \<Rightarrow> user \<Rightarrow> user list \<Rightarrow> exn + (user \<times> user list)" where
  "trySave env accepts validateBeforeSave passwordModified u db =
     (case save env validateBeforeSave passwordModified u db of
        None \<Rightarrow> Inl ValidationError
      | Some (u', db') \<Rightarrow> if accepts u' then Inr (u', db') else Inl WriteError)"

subsection \<open>Responses\<close>

definition res0 :: response where
  "res0 = \<lparr>status_code = None, body = None, cookie_ops = []\<rparr>"

definition send_json :: "status \<Rightarrow> (string \<times> json) list \<Rightarrow> response \<Rightarrow> response" where
  "send_json st b r = r\<lparr>status_code := Some st, body := Some b\<rparr>"

definition clearCookie :: "string \<Rightarrow> response \<Rightarrow> response" where
  "clearCookie c r = r\<lparr>cookie_ops := cookie_ops r @ [ClearCookie c]\<rparr>"

definition setCookie :: "string \<Rightarrow> string \<Rightarrow> response \<Rightarrow> response" where
  "setCookie c v r = r\<lparr>cookie_ops := cookie_ops r @ [SetCookie c v]\<rparr>"

text \<open>The handler leaves through \<^verbatim>\<open>next(new ErrorHandler(m, st))\<close>: nothing was written.\<close>

definition fail :: "user list \<Rightarrow> string \<Rightarrow> status \<Rightarrow> result" where
  "fail db m st = \<lparr>store = db, saves = [], res = res0, signal = Next m st\<rparr>"

definition throw :: "user list \<Rightarrow> (user \<times> bool) list \<Rightarrow> response \<Rightarrow> exn \<Rightarrow> result" where
  "throw db log r e = \<lparr>store = db, saves = log, res = r, signal = Threw e\<rparr>"

text \<open>
  Modelled from the spec: the user projection that \<^verbatim>\<open>utils/sendAuthToken\<close> puts in the
  response body, without the password and the tokens (section 4.2).
\<close>

definition sanitized :: "user \<Rightarrow> (string \<times> json) list" where
  "sanitized u =
     [(''_id'', JStr (uid u)), (''username'', JStr (username u)),
      (''name'', JStr (name u)), (''email'', JStr (email u))]"

text \<open>
  Modelled from the spec: \<^verbatim>\<open>utils/sendAuthToken\<close> (section 4.2). It signs an access and
  a refresh token, stores the refresh token on the user record, sets it as the cookie and
  answers with the access token and the projection of the user.
\<close>

definition sendAuthToken ::
  "env \<Rightarrow> user \<Rightarrow> status \<Rightarrow> user list \<Rightarrow> (user \<times> bool) list \<Rightarrow> response \<Rightarrow> result" where
  "sendAuthToken env u st db log r =
     (let accessToken = signAccessToken env u;
          token = signRefreshToken env u
      in case save env False False (u\<lparr>refreshToken := Some token\<rparr>) db of
           None \<Rightarrow> throw db log r ValidationError
         | Some (u', db') \<Rightarrow>
             \<lparr>store = db', saves = log @ [(u', False)],
              res = send_json st
                      [(''success'', JBool True), (''accessToken'', JStr accessToken),
                       (''user'', JObj (sanitized u'))]
                      (setCookie ''jwt'' token r),
              signal = Sent\<rparr>)"

subsection \<open>The handlers\<close>

definition loginHandler :: "env \<Rightarrow> user list \<Rightarrow> request \<Rightarrow> result" where
  "loginHandler env db req =
     (if falsy (body_password req) \<or> falsy (body_username req)
      then fail db ''All fields are required'' STATUS_BAD_REQUEST
      else
        case findOne (\<lambda>u. username u = the (body_username req)) db of
          None \<Rightarrow> fail db ''Incorrect credentials'' STATUS_UNAUTHORIZED
        | Some foundUser \<Rightarrow>
            if \<not> comparePassword env (the (body_password req)) (password foundUser)
            then fail db ''Incorrect credentials'' STATUS_UNAUTHORIZED
            else sendAuthToken env foundUser STATUS_OK db [] res0)"

definition logoutHandler :: "env \<Rightarrow> user list \<Rightarrow> request \<Rightarrow> result" where
  "logoutHandler env db req =
     (case cookies_jwt req of
        None \<Rightarrow> fail db ''You are already logged out'' STATUS_BAD_REQUEST
      | Some token \<Rightarrow>
          if token = [] then fail db ''You are already logged out'' STATUS_BAD_REQUEST
          else
            let answer = send_json STATUS_OK
                           [(''success'', JBool True),
                            (''message'', JStr ''You have been logged out'')]
                           (clearCookie ''jwt'' res0)
            in (case findOne (\<lambda>u. refreshToken u = Some token) db of
                  None \<Rightarrow> \<lparr>store = db, saves = [], res = answer, signal = Sent\<rparr>
                | Some foundUser \<Rightarrow>
                    (case save env False False (foundUser\<lparr>refreshToken := None\<rparr>) db of
                       None \<Rightarrow> throw db [] res0 ValidationError
                     | Some (u', db') \<Rightarrow>
                         \<lparr>store = db', saves = [(u', False)], res = answer, signal = Sent\<rparr>)))"

text \<open>
  Modelled from the spec: \<^verbatim>\<open>signResetPasswordToken\<close> of the user model (section 4.5). It
  draws a random token, keeps its digest and an expiration one window from now on the
  document, and returns the token itself.
\<close>

definition signResetPasswordToken :: "env \<Rightarrow> int \<Rightarrow> user \<Rightarrow> string \<times> user" where
  "signResetPasswordToken env now u =
     (randomBytes env,
      u\<lparr>resetPasswordToken := Some (sha256 env (randomBytes env)),
        resetPasswordExpiration := Some (now + resetWindow env)\<rparr>)"

definition recoveryMail :: "request \<Rightarrow> string \<Rightarrow> string \<Rightarrow> mail" where
  "recoveryMail req addr token =
     (let resetPasswordUrl =
            protocol req @ ''://'' @ interp (host req) @ ''/account/reset?token='' @ token
      in \<lparr>mail_email = addr,
          mail_subject = ''Password Recovery - Shop by Jozi Bashaj'',
          mail_message =
            ''Here is the password recovery link:'' @ [CHR 0x0A, CHR 0x0A] @ resetPasswordUrl
            @ [CHR 0x0A, CHR 0x0A] @ ''If you have not requested this email, then ignore it.''\<rparr>)"

text \<open>
  \<^verbatim>\<open>forgotPassword\<close> saves twice, and the second save undoes the first: the handler is
  modelled with the database's answer to each write. A save that rejects outside the
  \<^verbatim>\<open>try\<close> (line 109) or inside the \<^verbatim>\<open>catch\<close> (line 129) leaves the handler as an
  exception.
\<close>

definition forgotPassword ::
  "env \<Rightarrow> (user \<Rightarrow> bool) \<Rightarrow> int \<Rightarrow> user list \<Rightarrow> request \<Rightarrow> result" where
  "forgotPassword env accepts now db req =
     (case body_email req of
        None \<Rightarrow> fail db ''Email is required'' STATUS_BAD_REQUEST
      | Some addr \<Rightarrow>
          if addr = [] then fail db ''Email is required'' STATUS_BAD_REQUEST
          else
            (case findOne (\<lambda>u. email u = addr) db of
               None \<Rightarrow>
                 fail db (''User with email ('' @ addr @ '') was not found'') STATUS_NOT_FOUND
             | Some foundUser \<Rightarrow>
                (case signResetPasswordToken env now foundUser of
                   (token, u1) \<Rightarrow>
                     (case trySave env accepts False False u1 db of
                        Inl e \<Rightarrow> throw db [] res0 e
                      | Inr (u2, db1) \<Rightarrow>
                          if sendEmail env (recoveryMail req addr token)
                          then
                            \<lparr>store = db1, saves = [(u2, False)],
                             res = send_json STATUS_OK
                                     [(''success'', JBool True),
                                      (''message'', JStr (''Recovery link sent to: '' @ email u2))]
                                     res0,
                             signal = Sent\<rparr>
                          else
                            (case trySave env accepts False False
                                    (u2\<lparr>resetPasswordToken := None,
                                        resetPasswordExpiration := None\<rparr>) db1 of
                               Inl e \<Rightarrow> throw db1 [(u2, False)] res0 e
                             | Inr (u3, db2) \<Rightarrow>
                                 \<lparr>store = db2, saves = [(u2, False), (u3, False)], res = res0,
                                  signal = Next (''Cannot send email to ('' @ addr @ '')'')
                                             STATUS_INTERNAL\<rparr>)))))"

definition resetPassword :: "env \<Rightarrow> int \<Rightarrow> user list \<Rightarrow> request \<Rightarrow> result" where
  "resetPassword env now db req =
     (if falsy (params_token req) then fail db ''Reset token is required'' STATUS_BAD_REQUEST
      else if falsy (body_password req) then fail db ''Password is required'' STATUS_BAD_REQUEST
      else
        let hashedResetPasswordToken = sha256 env (the (params_token req))
        in case findOne (resetQuery hashedResetPasswordToken now) db of
             None \<Rightarrow> fail db ''Reset token has been expired'' STATUS_FORBIDDEN
           | Some foundUser \<Rightarrow>
               (case save env True True
                       (foundUser\<lparr>password := the (body_password req),
                                  resetPasswordToken := None,
                                  resetPasswordExpiration := None\<rparr>) db of
                  None \<Rightarrow> throw db [] res0 ValidationError
                | Some (u', db') \<Rightarrow> sendAuthToken env u' STATUS_OK db' [(u', True)] res0))"

definition updatePassword :: "env \<Rightarrow> user list \<Rightarrow> request \<Rightarrow> result" where
  "updatePassword env db req =
     (if falsy (body_password req) \<or> falsy (body_newPassword req)
      then fail db ''All fields are required'' STATUS_BAD_REQUEST
      else if body_password req = body_newPassword req
      then fail db ''Cannot use same password'' STATUS_BAD_REQUEST
      else
        case findById (user_id req) db of
          None \<Rightarrow> throw db [] res0 TypeError
        | Some foundUser \<Rightarrow>
            if \<not> comparePassword env (the (body_password req)) (password foundUser)
            then fail db ''Incorrect password'' STATUS_FORBIDDEN
            else
              (case save env True True
                      (foundUser\<lparr>password := the (body_newPassword req)\<rparr>) db of
                 None \<Rightarrow> throw db [] res0 ValidationError
               | Some (u', db') \<Rightarrow>
                   \<lparr>store = db', saves = [(u', True)],
                    res = send_json STATUS_OK
                            [(''success'', JBool True),
                             (''message'', JStr ''Password has been updated'')]
                            res0,
                    signal = Sent\<rparr>))"

text \<open>
  The callback given to \<^verbatim>\<open>jwt.verify\<close> in \<^verbatim>\<open>getNewAccessToken\<close>. It reads
  \<^verbatim>\<open>decoded.id.toString()\<close> before it looks at \<^verbatim>\<open>err\<close>: with \<^verbatim>\<open>decoded\<close> undefined, or
  without an \<^verbatim>\<open>id\<close> in it, that read raises a TypeError.
\<close>

definition verifyCallback ::
  "env \<Rightarrow> user list \<Rightarrow> user \<Rightarrow> jwt_error option \<Rightarrow> payload option \<Rightarrow> result" where
  "verifyCallback env db foundUser err decoded =
     (let userId = uid foundUser
      in case decoded of
           None \<Rightarrow> throw db [] res0 TypeError
         | Some d \<Rightarrow>
             (case claim_id d of
                None \<Rightarrow> throw db [] res0 TypeError
              | Some decodedUserId \<Rightarrow>
                  if err \<noteq> None \<or> userId \<noteq> decodedUserId
                  then fail db ''Access expired'' STATUS_FORBIDDEN
                  else
                    let accessToken = signAccessToken env foundUser
                    in \<lparr>store = db, saves = [],
                        res = send_json STATUS_OK [(''accessToken'', JStr accessToken)] res0,
                        signal = Sent\<rparr>))"

definition getNewAccessToken :: "env \<Rightarrow> user list \<Rightarrow> request \<Rightarrow> result" where
  "getNewAccessToken env db req =
     (case cookies_jwt req of
        None \<Rightarrow> fail db ''Unauthorized'' STATUS_UNAUTHORIZED
      | Some token \<Rightarrow>
          if token = [] then fail db ''Unauthorized'' STATUS_UNAUTHORIZED
          else
            (case findOne (\<lambda>u. refreshToken u = Some token) db of
               None \<Rightarrow> fail db ''Access expired'' STATUS_FORBIDDEN
             | Some foundUser \<Rightarrow>
                 (case jwt_verify env token of
                    (err, decoded) \<Rightarrow> verifyCallback env db foundUser err decoded)))"

subsection \<open>Well-formed collections\<close>

text \<open>
  The collection keeps \<^verbatim>\<open>_id\<close> unique, and a reset token is random: no two documents
  store the same digest.
\<close>

definition wf_store :: "user list \<Rightarrow> bool" where
  "wf_store db =
     (distinct (map uid db) \<and>
      (\<forall>v \<in> set db. \<forall>w \<in> set db.
         resetPasswordToken v \<noteq> None \<and> resetPasswordToken v = resetPasswordToken w \<longrightarrow> v = w))"

subsection \<open>A small instance\<close>

text \<open>
  Two users and toy collaborators, to evaluate the handlers: a password hashes to itself
  behind \<open>#\<close>, a refresh token \<open>rt-i\<close> verifies with subject \<open>i\<close>, a token \<open>exp-i\<close> is
  expired, any other token has a bad signature.
\<close>

definition env0 :: env where
  "env0 =
     \<lparr>comparePassword = (\<lambda>p h. h = CHR ''#'' # p),
      hashPassword = (\<lambda>p. CHR ''#'' # p),
      validate = (\<lambda>u. 3 \<le> length (password u)),
      sha256 = (\<lambda>s. ''h:'' @ s),
      jwt_verify = (\<lambda>t.
        if take 3 t = ''rt-'' then (None, Some \<lparr>claim_id = Some (drop 3 t)\<rparr>)
        else if take 4 t = ''exp-'' then (Some TokenExpiredError, None)
        else (Some JsonWebTokenError, None)),
      signAccessToken = (\<lambda>u. ''at-'' @ uid u),
      signRefreshToken = (\<lambda>u. ''rt-'' @ uid u),
      randomBytes = ''c0ffee'',
      resetWindow = 1800000,
      sendEmail = (\<lambda>m. True)\<rparr>"

definition alice :: user where
  "alice =
     \<lparr>uid = ''1'', username = ''alice'', name = ''Alice'', email = ''a@x.com'',
      password = ''#pw1'', refreshToken = Some ''rt-1'',
      resetPasswordToken = Some ''h:tok'', resetPasswordExpiration = Some 2000\<rparr>"

definition bob :: user where
  "bob =
     \<lparr>uid = ''2'', username = ''bob'', name = ''Bob'', email = ''b@x.com'',
      password = ''#pw2'', refreshToken = Some ''exp-2'',
      resetPasswordToken = Some ''h:old'', resetPasswordExpiration = Some 500\<rparr>"

definition db0 :: "user list" where
  "db0 = [alice, bob]"

definition req0 :: request where
  "req0 =
     \<lparr>body_username = None, body_password = None, body_newPassword = None,
      body_email = None, cookies_jwt = None, params_token = None,
      user_id = ''1'', protocol = ''https'', host = Some ''shop.example''\<rparr>"

section \<open>Properties\<close>

lemmas sample_defs = env0_def alice_def bob_def db0_def req0_def findOne_def findById_def

subsection \<open>Facts about the collection\<close>

lemma findOne_SomeD: "findOne q db = Some u \<Longrightarrow> u \<in> set db \<and> q u"
  unfolding findOne_def by (induction db) (auto split: if_splits)

lemma findOne_None_iff: "findOne q db = None \<longleftrightarrow> (\<forall>u \<in> set db. \<not> q u)"
  unfolding findOne_def by (auto simp: find_None_iff)

lemma findById_updateOne:
  "v \<in> set db \<Longrightarrow> uid v = uid u \<Longrightarrow> findById (uid u) (updateOne u db) = Some u"
  unfolding findById_def findOne_def by (induction db) auto

lemma updateOne_mem:
  "v \<in> set db \<Longrightarrow> uid v = uid u \<Longrightarrow> u \<in> set (updateOne u db)"
  by (induction db) auto

lemma set_updateOne_subset: "set (updateOne x db) \<subseteq> insert x (set db)"
  by (induction db) auto

lemma set_updateOne_distinct:
  "distinct (map uid db) \<Longrightarrow> u \<in> set db \<Longrightarrow> uid x = uid u \<Longrightarrow>
     set (updateOne x db) = insert x (set db - {u})"
proof (induction db)
  case Nil
  then show ?case by simp
next
  case (Cons v vs)
  show ?case
  proof (cases "uid v = uid x")
    case True
    with Cons.prems have "u = v" by (auto simp: image_iff)
    moreover from Cons.prems have "v \<notin> set vs" by (auto simp: image_iff)
    ultimately show ?thesis using True by auto
  next
    case False
    with Cons.prems have "u \<in> set vs" "u \<noteq> v" by auto
    with Cons False show ?thesis by auto
  qed
qed

lemma map_uid_updateOne: "map uid (updateOne x db) = map uid db"
  by (induction db) auto

lemma save_unvalidated:
  "save env False False u db = Some (u, updateOne u db)"
  by (simp add: save_def preSave_def Let_def)

lemma trySave_unvalidated:
  "trySave env accepts False False u db =
     (if accepts u then Inr (u, updateOne u db) else Inl WriteError)"
  by (simp add: trySave_def save_unvalidated)

text \<open>
  Every handler keeps the collection well-formed; forgot-password does when the digest of
  the token it draws is not stored yet.
\<close>

lemma wf_store_updateOne:
  assumes wf: "wf_store db" and mem: "u \<in> set db" and id: "uid x = uid u"
    and tok: "resetPasswordToken x = None \<or> resetPasswordToken x = resetPasswordToken u
              \<or> (\<forall>v \<in> set db. resetPasswordToken v \<noteq> resetPasswordToken x)"
  shows "wf_store (updateOne x db)"
proof -
  from wf have ids: "distinct (map uid db)" by (simp add: wf_store_def)
  have s: "set (updateOne x db) = insert x (set db - {u})"
    using set_updateOne_distinct [OF ids mem id] .
  have old: "v = w" if "v \<in> set db" "w \<in> set db" "resetPasswordToken v \<noteq> None"
      "resetPasswordToken v = resetPasswordToken w" for v w
    using wf that by (simp add: wf_store_def)
  have new: "False" if "w \<in> set db" "w \<noteq> u" "resetPasswordToken x \<noteq> None"
      "resetPasswordToken x = resetPasswordToken w" for w
    using tok that old [OF mem that(1)] by auto
  have uniq: "v = w" if v: "v \<in> insert x (set db - {u})" and w: "w \<in> insert x (set db - {u})"
      and n: "resetPasswordToken v \<noteq> None"
      and e: "resetPasswordToken v = resetPasswordToken w" for v w
  proof (cases "v = x")
    case True
    show ?thesis
    proof (cases "w = x")
      case True
      with \<open>v = x\<close> show ?thesis by simp
    next
      case False
      with w have "w \<in> set db" "w \<noteq> u" by simp_all
      from new [OF this] n e True show ?thesis by metis
    qed
  next
    case False
    with v have v': "v \<in> set db" "v \<noteq> u" by simp_all
    show ?thesis
    proof (cases "w = x")
      case True
      from new [OF v'] n e True show ?thesis by metis
    next
      case False
      with w have "w \<in> set db" by simp
      from old [OF v'(1) this n e] show ?thesis .
    qed
  qed
  have d: "distinct (map uid (updateOne x db))"
    by (simp add: map_uid_updateOne ids)
  show ?thesis
    unfolding wf_store_def s using d uniq by blast
qed

lemma wf_store_sendAuthToken:
  assumes "wf_store db" "v \<in> set db" "uid u = uid v"
    and "resetPasswordToken u = None \<or> resetPasswordToken u = resetPasswordToken v"
  shows "wf_store (store (sendAuthToken env u st db log r))"
  using wf_store_updateOne [OF assms(1,2), of "u\<lparr>refreshToken := Some (signRefreshToken env u)\<rparr>"]
    assms(3,4)
  by (auto simp: sendAuthToken_def save_unvalidated Let_def)

lemma wf_store_login: "wf_store db \<Longrightarrow> wf_store (store (loginHandler env db req))"
  by (auto simp: loginHandler_def fail_def wf_store_sendAuthToken
        split: option.splits dest: findOne_SomeD)

lemma wf_store_logout: "wf_store db \<Longrightarrow> wf_store (store (logoutHandler env db req))"
  by (auto simp: logoutHandler_def fail_def save_unvalidated Let_def
        split: option.splits dest!: findOne_SomeD intro!: wf_store_updateOne)

lemma wf_store_update: "wf_store db \<Longrightarrow> wf_store (store (updatePassword env db req))"
  by (auto simp: updatePassword_def fail_def throw_def save_def preSave_def Let_def findById_def
        split: option.splits dest!: findOne_SomeD intro!: wf_store_updateOne)

lemma wf_store_refresh: "wf_store db \<Longrightarrow> wf_store (store (getNewAccessToken env db req))"
  by (auto simp: getNewAccessToken_def verifyCallback_def fail_def throw_def Let_def
        split: option.splits prod.splits)

lemma wf_store_reset:
  assumes "wf_store db"
  shows "wf_store (store (resetPassword env now db req))"
proof (cases "findOne (resetQuery (sha256 env (the (params_token req))) now) db")
  case None
  with assms show ?thesis by (simp add: resetPassword_def fail_def)
next
  case (Some u)
  let ?u0 = "u\<lparr>password := the (body_password req), resetPasswordToken := None,
                resetPasswordExpiration := None\<rparr>"
  let ?u1 = "?u0\<lparr>password := hashPassword env (password ?u0)\<rparr>"
  from Some have mem: "u \<in> set db" by (simp add: findOne_SomeD)
  have wf1: "wf_store (updateOne ?u1 db)"
    using wf_store_updateOne [OF assms mem, of ?u1] by simp
  have "?u1 \<in> set (updateOne ?u1 db)"
    using updateOne_mem [OF mem, of ?u1] by simp
  then have "wf_store (store (sendAuthToken env ?u1 STATUS_OK (updateOne ?u1 db) [(?u1, True)] res0))"
    using wf_store_sendAuthToken [OF wf1, of ?u1 ?u1] by simp
  with assms Some show ?thesis
    by (simp add: resetPassword_def fail_def throw_def save_def preSave_def Let_def)
qed

lemma wf_store_forgot:
  assumes "wf_store db"
    and fresh: "\<forall>v \<in> set db. resetPasswordToken v \<noteq> Some (sha256 env (randomBytes env))"
  shows "wf_store (store (forgotPassword env accepts now db req))"
proof (cases "body_email req")
  case None
  with assms show ?thesis by (simp add: forgotPassword_def fail_def)
next
  case (Some addr)
  show ?thesis
  proof (cases "findOne (\<lambda>u. email u = addr) db")
    case None
    with assms Some show ?thesis by (simp add: forgotPassword_def fail_def)
  next
    case found: (Some u)
    let ?u1 = "u\<lparr>resetPasswordToken := Some (sha256 env (randomBytes env)),
                  resetPasswordExpiration := Some (now + resetWindow env)\<rparr>"
    let ?u0 = "u\<lparr>resetPasswordToken := None, resetPasswordExpiration := None\<rparr>"
    from found have mem: "u \<in> set db" by (simp add: findOne_SomeD)
    have wf1: "wf_store (updateOne ?u1 db)"
      using wf_store_updateOne [OF assms(1) mem, of ?u1] fresh by simp
    have "?u1 \<in> set (updateOne ?u1 db)"
      using updateOne_mem [OF mem, of ?u1] by simp
    then have wf2: "wf_store (updateOne ?u0 (updateOne ?u1 db))"
      using wf_store_updateOne [OF wf1, of ?u1 ?u0] by simp
    from assms Some found wf1 wf2 show ?thesis
      by (simp add: forgotPassword_def fail_def throw_def signResetPasswordToken_def
            trySave_unvalidated)
  qed
qed

subsection \<open>Login\<close>

text \<open>
  C4. Two login requests with both fields present, one naming a username that no stored
  user has, the other naming a stored user with a password that the hash comparison
  rejects, end the same way: \<^verbatim>\<open>next\<close> is called with the message
  \<open>Incorrect credentials\<close> and the status \<open>STATUS_UNAUTHORIZED\<close>, nothing is written
  to the response, and no collection is written.
\<close>

theorem login_failures_identical:
  assumes "body_username r1 = Some n1" "n1 \<noteq> []" "body_password r1 = Some p1" "p1 \<noteq> []"
    and "body_username r2 = Some n2" "n2 \<noteq> []" "body_password r2 = Some p2" "p2 \<noteq> []"
    and "findOne (\<lambda>u. username u = n1) db1 = None"
    and "findOne (\<lambda>u. username u = n2) db2 = Some u"
    and "\<not> comparePassword env p2 (password u)"
  shows "signal (loginHandler env db1 r1) = Next ''Incorrect credentials'' STATUS_UNAUTHORIZED
       \<and> signal (loginHandler env db2 r2) = signal (loginHandler env db1 r1)
       \<and> res (loginHandler env db2 r2) = res (loginHandler env db1 r1)
       \<and> store (loginHandler env db1 r1) = db1 \<and> store (loginHandler env db2 r2) = db2"
  using assms by (simp add: loginHandler_def fail_def)

theorem login_failures_identical_witness:
  "findOne (\<lambda>u. username u = ''carol'') db0 = None
   \<and> findOne (\<lambda>u. username u = ''alice'') db0 = Some alice
   \<and> \<not> comparePassword env0 ''wrong'' (password alice)
   \<and> signal (loginHandler env0 db0 (req0\<lparr>body_username := Some ''carol'', body_password := Some ''pw1''\<rparr>))
       = Next ''Incorrect credentials'' STATUS_UNAUTHORIZED
   \<and> signal (loginHandler env0 db0 (req0\<lparr>body_username := Some ''alice'', body_password := Some ''wrong''\<rparr>))
       = Next ''Incorrect credentials'' STATUS_UNAUTHORIZED"
proof -
  have h1: "findOne (\<lambda>u. username u = ''carol'') db0 = None"
    and h2: "findOne (\<lambda>u. username u = ''alice'') db0 = Some alice"
    and h3: "\<not> comparePassword env0 ''wrong'' (password alice)"
    by (simp_all add: sample_defs)
  from login_failures_identical
    [of "req0\<lparr>body_username := Some ''carol'', body_password := Some ''pw1''\<rparr>" "''carol''" "''pw1''"
        "req0\<lparr>body_username := Some ''alice'', body_password := Some ''wrong''\<rparr>" "''alice''" "''wrong''"
        db0 db0 alice env0]
  show ?thesis using h1 h2 h3 by simp
qed

subsection \<open>Logout\<close>

text \<open>
  C7. A logout request with the cookie present always clears the cookie \<open>jwt\<close> and
  answers with success. When a user stores that refresh token, exactly that document is
  written back with the field cleared, by a save without validation; when no user stores
  it, the collection is unchanged and nothing is saved.
\<close>

theorem logout_clears_cookie:
  assumes "cookies_jwt req = Some t" "t \<noteq> []"
  shows "signal (logoutHandler env db req) = Sent
       \<and> res (logoutHandler env db req) =
           \<lparr>status_code = Some STATUS_OK,
            body = Some [(''success'', JBool True), (''message'', JStr ''You have been logged out'')],
            cookie_ops = [ClearCookie ''jwt'']\<rparr>
       \<and> (case findOne (\<lambda>u. refreshToken u = Some t) db of
             None \<Rightarrow> store (logoutHandler env db req) = db \<and> saves (logoutHandler env db req) = []
           | Some u \<Rightarrow>
               store (logoutHandler env db req) = updateOne (u\<lparr>refreshToken := None\<rparr>) db
             \<and> saves (logoutHandler env db req) = [(u\<lparr>refreshToken := None\<rparr>, False)]
             \<and> findById (uid u) (store (logoutHandler env db req)) = Some (u\<lparr>refreshToken := None\<rparr>))"
proof (cases "findOne (\<lambda>u. refreshToken u = Some t) db")
  case None
  with assms show ?thesis
    by (simp add: logoutHandler_def send_json_def clearCookie_def res0_def)
next
  case (Some u)
  then have "u \<in> set db" by (simp add: findOne_SomeD)
  then have "findById (uid u) (updateOne (u\<lparr>refreshToken := None\<rparr>) db) = Some (u\<lparr>refreshToken := None\<rparr>)"
    using findById_updateOne [of u db "u\<lparr>refreshToken := None\<rparr>"] by simp
  with assms Some show ?thesis
    by (simp add: logoutHandler_def save_unvalidated send_json_def clearCookie_def res0_def)
qed

theorem logout_clears_cookie_witness:
  "findOne (\<lambda>u. refreshToken u = Some ''rt-1'') db0 = Some alice
   \<and> store (logoutHandler env0 db0 (req0\<lparr>cookies_jwt := Some ''rt-1''\<rparr>))
       = [alice\<lparr>refreshToken := None\<rparr>, bob]
   \<and> cookie_ops (res (logoutHandler env0 db0 (req0\<lparr>cookies_jwt := Some ''rt-1''\<rparr>)))
       = [ClearCookie ''jwt'']
   \<and> findOne (\<lambda>u. refreshToken u = Some ''rt-9'') db0 = None
   \<and> store (logoutHandler env0 db0 (req0\<lparr>cookies_jwt := Some ''rt-9''\<rparr>)) = db0
   \<and> cookie_ops (res (logoutHandler env0 db0 (req0\<lparr>cookies_jwt := Some ''rt-9''\<rparr>)))
       = [ClearCookie ''jwt'']
   \<and> signal (logoutHandler env0 db0 (req0\<lparr>cookies_jwt := Some ''rt-1''\<rparr>)) = Sent
   \<and> signal (logoutHandler env0 db0 (req0\<lparr>cookies_jwt := Some ''rt-9''\<rparr>)) = Sent"
proof -
  have h1: "findOne (\<lambda>u. refreshToken u = Some ''rt-1'') db0 = Some alice"
    and h2: "findOne (\<lambda>u. refreshToken u = Some ''rt-9'') db0 = None"
    by (simp_all add: sample_defs)
  have u: "updateOne (alice\<lparr>refreshToken := None\<rparr>) db0 = [alice\<lparr>refreshToken := None\<rparr>, bob]"
    by (simp add: db0_def alice_def bob_def)
  from logout_clears_cookie [of "req0\<lparr>cookies_jwt := Some ''rt-1''\<rparr>" "''rt-1''" env0 db0]
       logout_clears_cookie [of "req0\<lparr>cookies_jwt := Some ''rt-9''\<rparr>" "''rt-9''" env0 db0]
  show ?thesis using h1 h2 u by simp
qed

subsection \<open>Forgot password\<close>

text \<open>
  What forgot-password does when the database rejects the roll-back: the handler ends with
  the error of that save, after the save of the digest, and the digest stays stored.
\<close>

lemma forgot_rollback_rejected:
  assumes "body_email req = Some addr" "addr \<noteq> []"
    and "findOne (\<lambda>u. email u = addr) db = Some u"
    and "accepts (u\<lparr>resetPasswordToken := Some (sha256 env (randomBytes env)),
                     resetPasswordExpiration := Some (now + resetWindow env)\<rparr>)"
    and "\<not> sendEmail env (recoveryMail req addr (randomBytes env))"
    and "\<not> accepts (u\<lparr>resetPasswordToken := None, resetPasswordExpiration := None\<rparr>)"
  shows "forgotPassword env accepts now db req =
           \<lparr>store = updateOne (u\<lparr>resetPasswordToken := Some (sha256 env (randomBytes env)),
                                  resetPasswordExpiration := Some (now + resetWindow env)\<rparr>) db,
            saves = [(u\<lparr>resetPasswordToken := Some (sha256 env (randomBytes env)),
                         resetPasswordExpiration := Some (now + resetWindow env)\<rparr>, False)],
            res = res0, signal = Threw WriteError\<rparr>"
  using assms
  by (simp add: forgotPassword_def signResetPasswordToken_def trySave_unvalidated throw_def)

text \<open>
  C2, as stated, fails: bob is found, the digest is saved, sending the mail fails and the
  database rejects the save that clears the fields. The handler does not answer with
  success, it does not fail with \<open>STATUS_INTERNAL\<close> either, and bob's stored document
  still holds the digest and its expiration.
\<close>

theorem forgot_rollback_counterexample:
  "findOne (\<lambda>u. email u = ''b@x.com'') db0 = Some bob
   \<and> \<not> sendEmail (env0\<lparr>sendEmail := \<lambda>m. False\<rparr>)
          (recoveryMail (req0\<lparr>body_email := Some ''b@x.com''\<rparr>) ''b@x.com''
             (randomBytes (env0\<lparr>sendEmail := \<lambda>m. False\<rparr>)))
   \<and> forgotPassword (env0\<lparr>sendEmail := \<lambda>m. False\<rparr>) (\<lambda>d. resetPasswordToken d \<noteq> None)
        1000 db0 (req0\<lparr>body_email := Some ''b@x.com''\<rparr>)
       = \<lparr>store = [alice, bob\<lparr>resetPasswordToken := Some ''h:c0ffee'',
                                resetPasswordExpiration := Some 1801000\<rparr>],
          saves = [(bob\<lparr>resetPasswordToken := Some ''h:c0ffee'',
                        resetPasswordExpiration := Some 1801000\<rparr>, False)],
          res = res0, signal = Threw WriteError\<rparr>
   \<and> findById ''2'' (store (forgotPassword (env0\<lparr>sendEmail := \<lambda>m. False\<rparr>)
                               (\<lambda>d. resetPasswordToken d \<noteq> None) 1000 db0
                               (req0\<lparr>body_email := Some ''b@x.com''\<rparr>)))
       = Some (bob\<lparr>resetPasswordToken := Some ''h:c0ffee'',
                   resetPasswordExpiration := Some 1801000\<rparr>)"
  by (simp add: sample_defs forgotPassword_def signResetPasswordToken_def
        trySave_unvalidated throw_def)

text \<open>
  C2, amended. Forgot-password with the user found and the save of the digest accepted:
  when sending the mail fails and the database accepts the save that writes both fields
  back to absent, the log holds the two saves in this order, the stored document has both
  fields absent and the handler fails with \<open>STATUS_INTERNAL\<close>. Hence whenever the handler
  ends neither with success nor with the error of a rejected save, the user's stored
  document has no reset token.
\<close>

theorem forgot_rollback:
  assumes "body_email req = Some addr" "addr \<noteq> []"
    and "findOne (\<lambda>u. email u = addr) db = Some u"
  shows "(accepts (u\<lparr>resetPasswordToken := Some (sha256 env (randomBytes env)),
                      resetPasswordExpiration := Some (now + resetWindow env)\<rparr>)
          \<and> \<not> sendEmail env (recoveryMail req addr (randomBytes env))
          \<and> accepts (u\<lparr>resetPasswordToken := None, resetPasswordExpiration := None\<rparr>) \<longrightarrow>
            signal (forgotPassword env accepts now db req)
              = Next (''Cannot send email to ('' @ addr @ '')'') STATUS_INTERNAL
          \<and> saves (forgotPassword env accepts now db req)
              = [(u\<lparr>resetPasswordToken := Some (sha256 env (randomBytes env)),
                    resetPasswordExpiration := Some (now + resetWindow env)\<rparr>, False),
                 (u\<lparr>resetPasswordToken := None, resetPasswordExpiration := None\<rparr>, False)]
          \<and> findById (uid u) (store (forgotPassword env accepts now db req))
              = Some (u\<lparr>resetPasswordToken := None, resetPasswordExpiration := None\<rparr>))
       \<and> (signal (forgotPassword env accepts now db req) \<noteq> Sent
          \<and> signal (forgotPassword env accepts now db req) \<noteq> Threw WriteError \<longrightarrow>
            (\<exists>v. findById (uid u) (store (forgotPassword env accepts now db req)) = Some v
                \<and> resetPasswordToken v = None \<and> resetPasswordExpiration v = None))"
proof -
  let ?u1 = "u\<lparr>resetPasswordToken := Some (sha256 env (randomBytes env)),
                resetPasswordExpiration := Some (now + resetWindow env)\<rparr>"
  let ?u0 = "u\<lparr>resetPasswordToken := None, resetPasswordExpiration := None\<rparr>"
  let ?r = "forgotPassword env accepts now db req"
  let ?mail = "sendEmail env (recoveryMail req addr (randomBytes env))"
  from assms(3) have mem: "u \<in> set db" by (simp add: findOne_SomeD)
  then have "?u1 \<in> set (updateOne ?u1 db)"
    using updateOne_mem [of u db ?u1] by simp
  then have look: "findById (uid u) (updateOne ?u0 (updateOne ?u1 db)) = Some ?u0"
    using findById_updateOne [of ?u1 "updateOne ?u1 db" ?u0] by simp
  have first: "\<not> accepts ?u1 \<Longrightarrow> signal ?r = Threw WriteError"
    using assms
    by (simp add: forgotPassword_def signResetPasswordToken_def trySave_unvalidated throw_def)
  have sent: "accepts ?u1 \<Longrightarrow> ?mail \<Longrightarrow> signal ?r = Sent"
    using assms
    by (simp add: forgotPassword_def signResetPasswordToken_def trySave_unvalidated)
  have second: "accepts ?u1 \<Longrightarrow> \<not> ?mail \<Longrightarrow> \<not> accepts ?u0 \<Longrightarrow> signal ?r = Threw WriteError"
    using assms
    by (simp add: forgotPassword_def signResetPasswordToken_def trySave_unvalidated throw_def)
  have rolled: "accepts ?u1 \<Longrightarrow> \<not> ?mail \<Longrightarrow> accepts ?u0 \<Longrightarrow>
      ?r = \<lparr>store = updateOne ?u0 (updateOne ?u1 db), saves = [(?u1, False), (?u0, False)],
            res = res0,
            signal = Next (''Cannot send email to ('' @ addr @ '')'') STATUS_INTERNAL\<rparr>"
    using assms
    by (simp add: forgotPassword_def signResetPasswordToken_def trySave_unvalidated)
  show ?thesis
  proof (cases "accepts ?u1 \<and> \<not> ?mail \<and> accepts ?u0")
    case True
    then show ?thesis using rolled look by simp
  next
    case False
    then have "signal ?r = Sent \<or> signal ?r = Threw WriteError"
      using first sent second by blast
    with False show ?thesis by blast
  qed
qed

theorem forgot_rollback_witness:
  "findOne (\<lambda>u. email u = ''b@x.com'') db0 = Some bob
   \<and> \<not> sendEmail (env0\<lparr>sendEmail := \<lambda>m. False\<rparr>)
          (recoveryMail (req0\<lparr>body_email := Some ''b@x.com''\<rparr>) ''b@x.com''
             (randomBytes (env0\<lparr>sendEmail := \<lambda>m. False\<rparr>)))
   \<and> signal (forgotPassword (env0\<lparr>sendEmail := \<lambda>m. False\<rparr>) (\<lambda>d. True) 1000 db0
               (req0\<lparr>body_email := Some ''b@x.com''\<rparr>))
       = Next ''Cannot send email to (b@x.com)'' STATUS_INTERNAL
   \<and> findById ''2'' (store (forgotPassword (env0\<lparr>sendEmail := \<lambda>m. False\<rparr>) (\<lambda>d. True) 1000 db0
                               (req0\<lparr>body_email := Some ''b@x.com''\<rparr>)))
       = Some (bob\<lparr>resetPasswordToken := None, resetPasswordExpiration := None\<rparr>)
   \<and> saves (forgotPassword (env0\<lparr>sendEmail := \<lambda>m. False\<rparr>) (\<lambda>d. True) 1000 db0
              (req0\<lparr>body_email := Some ''b@x.com''\<rparr>))
       = [(bob\<lparr>resetPasswordToken := Some ''h:c0ffee'',
                 resetPasswordExpiration := Some 1801000\<rparr>, False),
          (bob\<lparr>resetPasswordToken := None, resetPasswordExpiration := None\<rparr>, False)]"
proof -
  let ?e = "env0\<lparr>sendEmail := \<lambda>m. False\<rparr>"
  let ?r = "req0\<lparr>body_email := Some ''b@x.com''\<rparr>"
  have h1: "findOne (\<lambda>u. email u = ''b@x.com'') db0 = Some bob"
    by (simp add: sample_defs)
  have h2: "\<not> sendEmail ?e (recoveryMail ?r ''b@x.com'' (randomBytes ?e))"
    by simp
  have v: "sha256 ?e (randomBytes ?e) = ''h:c0ffee''" "1000 + resetWindow ?e = 1801000"
    "uid bob = ''2''"
    by (simp_all add: env0_def bob_def)
  from forgot_rollback
         [where req = ?r and addr = "''b@x.com''" and db = db0 and u = bob
            and accepts = "\<lambda>d. True" and env = ?e and now = 1000]
  show ?thesis using h1 h2 v by simp
qed

subsection \<open>Reset password\<close>

text \<open>
  C8. A reset-password request with token and password present, for which no user stores
  the digest of the token together with an expiration greater than now, fails with
  \<open>Reset token has been expired\<close> and \<open>STATUS_FORBIDDEN\<close>, writing nothing. The result
  is this one value whether no user stores the digest or the stored expiration has passed.
\<close>

theorem reset_no_match_forbidden:
  assumes "params_token req = Some t" "t \<noteq> []" "body_password req = Some p" "p \<noteq> []"
    and "\<not> (\<exists>u \<in> set db. resetPasswordToken u = Some (sha256 env t)
               \<and> (\<exists>e. resetPasswordExpiration u = Some e \<and> now < e))"
  shows "resetPassword env now db req =
           \<lparr>store = db, saves = [], res = res0,
            signal = Next ''Reset token has been expired'' STATUS_FORBIDDEN\<rparr>"
proof -
  have "findOne (resetQuery (sha256 env t) now) db = None"
    unfolding findOne_None_iff resetQuery_def using assms(5)
    by (auto split: option.splits)
  with assms show ?thesis
    by (simp add: resetPassword_def fail_def)
qed

theorem reset_no_match_forbidden_witness:
  "\<not> (\<exists>u \<in> set db0. resetPasswordToken u = Some (sha256 env0 ''nope'')
          \<and> (\<exists>e. resetPasswordExpiration u = Some e \<and> 1000 < e))
   \<and> \<not> (\<exists>u \<in> set db0. resetPasswordToken u = Some (sha256 env0 ''old'')
          \<and> (\<exists>e. resetPasswordExpiration u = Some e \<and> 1000 < e))
   \<and> resetPasswordToken bob = Some (sha256 env0 ''old'')
   \<and> signal (resetPassword env0 1000 db0 (req0\<lparr>params_token := Some ''nope'', body_password := Some ''pw3''\<rparr>))
       = Next ''Reset token has been expired'' STATUS_FORBIDDEN
   \<and> resetPassword env0 1000 db0 (req0\<lparr>params_token := Some ''old'', body_password := Some ''pw3''\<rparr>)
       = resetPassword env0 1000 db0 (req0\<lparr>params_token := Some ''nope'', body_password := Some ''pw3''\<rparr>)"
proof -
  have h1: "\<not> (\<exists>u \<in> set db0. resetPasswordToken u = Some (sha256 env0 ''nope'')
          \<and> (\<exists>e. resetPasswordExpiration u = Some e \<and> 1000 < e))"
    and h2: "\<not> (\<exists>u \<in> set db0. resetPasswordToken u = Some (sha256 env0 ''old'')
          \<and> (\<exists>e. resetPasswordExpiration u = Some e \<and> 1000 < e))"
    and h3: "resetPasswordToken bob = Some (sha256 env0 ''old'')"
    by (simp_all add: sample_defs)
  from reset_no_match_forbidden
         [of "req0\<lparr>params_token := Some ''nope'', body_password := Some ''pw3''\<rparr>" "''nope''" "''pw3''"
             db0 env0 1000, OF _ _ _ _ h1]
       reset_no_match_forbidden
         [of "req0\<lparr>params_token := Some ''old'', body_password := Some ''pw3''\<rparr>" "''old''" "''pw3''"
             db0 env0 1000, OF _ _ _ _ h2]
  show ?thesis using h1 h2 h3 by simp
qed

text \<open>
  C3. In a well-formed collection, after a reset-password request with token \<open>t\<close> has
  succeeded (the matching user's stored password is the hash of the new one, both reset
  fields are absent, and the document was saved with validation), any later
  reset-password request with the same token, at any time and with any password, fails
  with \<open>Reset token has been expired\<close> and \<open>STATUS_FORBIDDEN\<close>, writing nothing.
\<close>

theorem reset_token_single_use:
  assumes wf: "wf_store db"
    and tok: "params_token req = Some t"
    and ok: "signal (resetPassword env now db req) = Sent"
    and tok': "params_token req' = Some t"
    and pw': "body_password req' = Some p'" "p' \<noteq> []"
  shows "(\<exists>u p v. findOne (resetQuery (sha256 env t) now) db = Some u
            \<and> body_password req = Some p
            \<and> findById (uid u) (store (resetPassword env now db req)) = Some v
            \<and> password v = hashPassword env p
            \<and> resetPasswordToken v = None \<and> resetPasswordExpiration v = None
            \<and> (v\<lparr>refreshToken := refreshToken u\<rparr>, True)
                \<in> set (saves (resetPassword env now db req)))
       \<and> resetPassword env now' (store (resetPassword env now db req)) req' =
           \<lparr>store = store (resetPassword env now db req), saves = [], res = res0,
            signal = Next ''Reset token has been expired'' STATUS_FORBIDDEN\<rparr>"
proof -
  let ?h = "sha256 env t"
  let ?r = "resetPassword env now db req"
  from wf have ids: "distinct (map uid db)"
    and uniq: "\<And>v w. v \<in> set db \<Longrightarrow> w \<in> set db \<Longrightarrow> resetPasswordToken v = Some ?h
                 \<Longrightarrow> resetPasswordToken w = Some ?h \<Longrightarrow> v = w"
    by (simp_all add: wf_store_def)
  from ok tok have t: "t \<noteq> []"
    by (auto simp: resetPassword_def fail_def split: if_splits)
  from ok tok t obtain p where p: "body_password req = Some p" "p \<noteq> []"
    by (cases "body_password req") (auto simp: resetPassword_def fail_def split: if_splits)
  from ok tok t p obtain u where u: "findOne (resetQuery ?h now) db = Some u"
    by (cases "findOne (resetQuery ?h now) db") (auto simp: resetPassword_def fail_def)
  let ?u1 = "u\<lparr>resetPasswordToken := None, resetPasswordExpiration := None,
                password := hashPassword env p\<rparr>"
  let ?u2 = "?u1\<lparr>refreshToken := Some (signRefreshToken env ?u1)\<rparr>"
  from ok tok t p u have val: "validate env (u\<lparr>password := p, resetPasswordToken := None,
       resetPasswordExpiration := None\<rparr>)"
    by (auto simp: resetPassword_def save_def preSave_def throw_def split: if_splits)
  have r: "?r = \<lparr>store = updateOne ?u2 (updateOne ?u1 db),
                 saves = [(?u1, True), (?u2, False)],
                 res = send_json STATUS_OK
                         [(''success'', JBool True),
                          (''accessToken'', JStr (signAccessToken env ?u1)),
                          (''user'', JObj (sanitized ?u2))]
                         (setCookie ''jwt'' (signRefreshToken env ?u1) res0),
                 signal = Sent\<rparr>"
    using tok t p u val
    by (simp add: resetPassword_def save_def preSave_def sendAuthToken_def Let_def)
  from u have mem: "u \<in> set db" and q: "resetQuery ?h now u"
    by (simp_all add: findOne_SomeD)
  from mem have "?u1 \<in> set (updateOne ?u1 db)"
    using updateOne_mem [of u db ?u1] by simp
  then have look: "findById (uid u) (updateOne ?u2 (updateOne ?u1 db)) = Some ?u2"
    using findById_updateOne [of ?u1 "updateOne ?u1 db" ?u2] by simp
  have s1: "set (updateOne ?u1 db) = insert ?u1 (set db - {u})"
    using set_updateOne_distinct [OF ids mem, of ?u1] by simp
  have s2: "set (updateOne ?u2 (updateOne ?u1 db)) \<subseteq> insert ?u2 (insert ?u1 (set db - {u}))"
    using set_updateOne_subset [of ?u2 "updateOne ?u1 db"] s1 by simp
  have none: "\<not> resetQuery ?h now' v" if "v \<in> set (store ?r)" for v
  proof -
    from that s2 r consider "v = ?u2" | "v = ?u1" | "v \<in> set db" "v \<noteq> u" by auto
    then show ?thesis
    proof cases
      case 3
      with uniq [of v u] mem q show ?thesis by (auto simp: resetQuery_def)
    qed (simp_all add: resetQuery_def)
  qed
  then have "findOne (resetQuery ?h now') (store ?r) = None"
    by (simp add: findOne_None_iff)
  then have second: "resetPassword env now' (store ?r) req' =
      \<lparr>store = store ?r, saves = [], res = res0,
       signal = Next ''Reset token has been expired'' STATUS_FORBIDDEN\<rparr>"
    using tok' t pw' by (simp add: resetPassword_def fail_def)
  have first: "\<exists>u p v. findOne (resetQuery ?h now) db = Some u
            \<and> body_password req = Some p
            \<and> findById (uid u) (store ?r) = Some v
            \<and> password v = hashPassword env p
            \<and> resetPasswordToken v = None \<and> resetPasswordExpiration v = None
            \<and> (v\<lparr>refreshToken := refreshToken u\<rparr>, True) \<in> set (saves ?r)"
    using u p look r by simp
  from first second show ?thesis by blast
qed

theorem reset_token_single_use_witness:
  "wf_store db0
   \<and> signal (resetPassword env0 1000 db0
               (req0\<lparr>params_token := Some ''tok'', body_password := Some ''pw3''\<rparr>)) = Sent
   \<and> signal (resetPassword env0 1500
               (store (resetPassword env0 1000 db0
                        (req0\<lparr>params_token := Some ''tok'', body_password := Some ''pw3''\<rparr>)))
               (req0\<lparr>params_token := Some ''tok'', body_password := Some ''pw4''\<rparr>))
       = Next ''Reset token has been expired'' STATUS_FORBIDDEN"
proof -
  let ?r = "req0\<lparr>params_token := Some ''tok'', body_password := Some ''pw3''\<rparr>"
  let ?r' = "req0\<lparr>params_token := Some ''tok'', body_password := Some ''pw4''\<rparr>"
  have h1: "wf_store db0" by (simp add: wf_store_def sample_defs)
  have h3: "signal (resetPassword env0 1000 db0 ?r) = Sent"
    by (simp add: resetPassword_def resetQuery_def save_def preSave_def sendAuthToken_def sample_defs Let_def)
  from reset_token_single_use
         [where req' = ?r' and p' = "''pw4''" and now' = 1500, OF h1 _ h3]
  show ?thesis using h1 h3 by (simp add: req0_def)
qed

subsection \<open>Update password\<close>

text \<open>
  C9. Update-password: with a field missing, or both equal, the handler fails with
  \<open>STATUS_BAD_REQUEST\<close>, and its result is the same whatever the collection holds (it is
  not read). With both present and different and the user's document found: a current
  password that the comparison rejects gives \<open>Incorrect password\<close> with
  \<open>STATUS_FORBIDDEN\<close> and an unchanged collection; a current password that matches (and a
  document that validates) stores the hash of the new password by a validated save. A
  save or a change of the collection happens only when the current password matched.
\<close>

theorem updatePassword_contract:
  "(falsy (body_password req) \<or> falsy (body_newPassword req)
      \<or> body_password req = body_newPassword req \<longrightarrow>
      (\<exists>m. \<forall>db. updatePassword env db req =
               \<lparr>store = db, saves = [], res = res0, signal = Next m STATUS_BAD_REQUEST\<rparr>))
   \<and> (body_password req = Some p \<and> p \<noteq> [] \<and> body_newPassword req = Some q \<and> q \<noteq> []
        \<and> p \<noteq> q \<and> findById (user_id req) db = Some u \<longrightarrow>
        (\<not> comparePassword env p (password u) \<longrightarrow>
           updatePassword env db req =
             \<lparr>store = db, saves = [], res = res0,
              signal = Next ''Incorrect password'' STATUS_FORBIDDEN\<rparr>)
      \<and> (comparePassword env p (password u) \<and> validate env (u\<lparr>password := q\<rparr>) \<longrightarrow>
           signal (updatePassword env db req) = Sent
         \<and> store (updatePassword env db req) = updateOne (u\<lparr>password := hashPassword env q\<rparr>) db
         \<and> saves (updatePassword env db req) = [(u\<lparr>password := hashPassword env q\<rparr>, True)]
         \<and> findById (user_id req) (store (updatePassword env db req))
             = Some (u\<lparr>password := hashPassword env q\<rparr>)))
   \<and> (saves (updatePassword env db req) \<noteq> [] \<or> store (updatePassword env db req) \<noteq> db \<longrightarrow>
        (\<exists>u p. findById (user_id req) db = Some u \<and> body_password req = Some p
               \<and> comparePassword env p (password u)))"
proof (intro conjI impI)
  assume a: "falsy (body_password req) \<or> falsy (body_newPassword req)
      \<or> body_password req = body_newPassword req"
  show "\<exists>m. \<forall>db. updatePassword env db req =
               \<lparr>store = db, saves = [], res = res0, signal = Next m STATUS_BAD_REQUEST\<rparr>"
  proof (cases "falsy (body_password req) \<or> falsy (body_newPassword req)")
    case True
    then have "\<forall>db. updatePassword env db req =
        \<lparr>store = db, saves = [], res = res0,
         signal = Next ''All fields are required'' STATUS_BAD_REQUEST\<rparr>"
      by (simp add: updatePassword_def fail_def)
    then show ?thesis by blast
  next
    case False
    with a have "\<forall>db. updatePassword env db req =
        \<lparr>store = db, saves = [], res = res0,
         signal = Next ''Cannot use same password'' STATUS_BAD_REQUEST\<rparr>"
      by (simp add: updatePassword_def fail_def)
    then show ?thesis by blast
  qed
next
  assume a: "body_password req = Some p \<and> p \<noteq> [] \<and> body_newPassword req = Some q \<and> q \<noteq> []
        \<and> p \<noteq> q \<and> findById (user_id req) db = Some u"
    and b: "\<not> comparePassword env p (password u)"
  then show "updatePassword env db req =
             \<lparr>store = db, saves = [], res = res0,
              signal = Next ''Incorrect password'' STATUS_FORBIDDEN\<rparr>"
    by (simp add: updatePassword_def fail_def)
next
  assume a: "body_password req = Some p \<and> p \<noteq> [] \<and> body_newPassword req = Some q \<and> q \<noteq> []
        \<and> p \<noteq> q \<and> findById (user_id req) db = Some u"
    and b: "comparePassword env p (password u) \<and> validate env (u\<lparr>password := q\<rparr>)"
  let ?u' = "u\<lparr>password := hashPassword env q\<rparr>"
  have r: "updatePassword env db req =
      \<lparr>store = updateOne ?u' db, saves = [(?u', True)],
       res = send_json STATUS_OK
               [(''success'', JBool True), (''message'', JStr ''Password has been updated'')] res0,
       signal = Sent\<rparr>"
    using a b by (simp add: updatePassword_def save_def preSave_def Let_def)
  from a have "u \<in> set db" "uid u = user_id req"
    by (auto simp: findById_def dest: findOne_SomeD)
  then have f: "findById (user_id req) (updateOne ?u' db) = Some ?u'"
    using findById_updateOne [of u db ?u'] by simp
  show "signal (updatePassword env db req) = Sent" by (simp add: r)
  show "store (updatePassword env db req) = updateOne ?u' db" by (simp add: r)
  show "saves (updatePassword env db req) = [(?u', True)]" by (simp add: r)
  show "findById (user_id req) (store (updatePassword env db req)) = Some ?u'"
    by (simp add: r f)
next
  assume "saves (updatePassword env db req) \<noteq> [] \<or> store (updatePassword env db req) \<noteq> db"
  then show "\<exists>u p. findById (user_id req) db = Some u \<and> body_password req = Some p
               \<and> comparePassword env p (password u)"
    by (cases "body_password req"; cases "findById (user_id req) db")
       (auto simp: updatePassword_def fail_def throw_def save_def preSave_def Let_def split: if_splits option.splits)
qed

theorem updatePassword_contract_witness:
  "falsy (body_newPassword (req0\<lparr>body_password := Some ''pw1''\<rparr>))
   \<and> signal (updatePassword env0 db0 (req0\<lparr>body_password := Some ''pw1''\<rparr>))
       = Next ''All fields are required'' STATUS_BAD_REQUEST
   \<and> signal (updatePassword env0 db0
               (req0\<lparr>body_password := Some ''pw1'', body_newPassword := Some ''pw1''\<rparr>))
       = Next ''Cannot use same password'' STATUS_BAD_REQUEST
   \<and> findById ''1'' db0 = Some alice
   \<and> \<not> comparePassword env0 ''bad'' (password alice)
   \<and> updatePassword env0 db0 (req0\<lparr>body_password := Some ''bad'', body_newPassword := Some ''pw9''\<rparr>)
       = \<lparr>store = db0, saves = [], res = res0,
          signal = Next ''Incorrect password'' STATUS_FORBIDDEN\<rparr>
   \<and> comparePassword env0 ''pw1'' (password alice)
   \<and> validate env0 (alice\<lparr>password := ''pw9''\<rparr>)
   \<and> store (updatePassword env0 db0
              (req0\<lparr>body_password := Some ''pw1'', body_newPassword := Some ''pw9''\<rparr>))
       = [alice\<lparr>password := ''#pw9''\<rparr>, bob]
   \<and> saves (updatePassword env0 db0
              (req0\<lparr>body_password := Some ''pw1'', body_newPassword := Some ''pw9''\<rparr>))
       = [(alice\<lparr>password := ''#pw9''\<rparr>, True)]"
proof -
  let ?ra = "req0\<lparr>body_password := Some ''pw1''\<rparr>"
  let ?rb = "req0\<lparr>body_password := Some ''pw1'', body_newPassword := Some ''pw1''\<rparr>"
  let ?rc = "req0\<lparr>body_password := Some ''bad'', body_newPassword := Some ''pw9''\<rparr>"
  let ?rd = "req0\<lparr>body_password := Some ''pw1'', body_newPassword := Some ''pw9''\<rparr>"
  have h1: "falsy (body_newPassword ?ra)" by (simp add: req0_def)
  have h2: "findById ''1'' db0 = Some alice" by (simp add: sample_defs)
  have h3: "\<not> comparePassword env0 ''bad'' (password alice)"
    and h4: "comparePassword env0 ''pw1'' (password alice)"
    and h5: "validate env0 (alice\<lparr>password := ''pw9''\<rparr>)"
    by (simp_all add: env0_def alice_def)
  have h6: "user_id ?rc = ''1''" "user_id ?rd = ''1''" by (simp_all add: req0_def)
  have u: "updateOne (alice\<lparr>password := hashPassword env0 ''pw9''\<rparr>) db0
             = [alice\<lparr>password := ''#pw9''\<rparr>, bob]"
    by (simp add: db0_def alice_def bob_def env0_def)
  have s: "hashPassword env0 ''pw9'' = ''#pw9''" by (simp add: env0_def)
  have a: "signal (updatePassword env0 db0 ?ra) = Next ''All fields are required'' STATUS_BAD_REQUEST"
    and b: "signal (updatePassword env0 db0 ?rb) = Next ''Cannot use same password'' STATUS_BAD_REQUEST"
    by (simp_all add: updatePassword_def fail_def req0_def)
  from updatePassword_contract [of ?rc env0 "''bad''" "''pw9''" db0 alice]
       updatePassword_contract [of ?rd env0 "''pw1''" "''pw9''" db0 alice]
  show ?thesis using h1 h2 h3 h4 h5 h6 u s a b by simp
qed

text \<open>
  C10. Update-password with both fields present and different: when no document has the
  authenticated identifier, \<^verbatim>\<open>foundUser.comparePassword\<close> is called on \<^verbatim>\<open>null\<close> and the
  handler ends with a TypeError, not with an \<^verbatim>\<open>ErrorHandler\<close>, and writes nothing; and
  the handler ends with a TypeError only then.
\<close>

theorem updatePassword_missing_user_throws:
  assumes "body_password req = Some p" "p \<noteq> []" "body_newPassword req = Some q" "q \<noteq> []"
    and "p \<noteq> q"
  shows "(findById (user_id req) db = None \<longrightarrow>
            updatePassword env db req =
              \<lparr>store = db, saves = [], res = res0, signal = Threw TypeError\<rparr>)
       \<and> (signal (updatePassword env db req) = Threw TypeError \<longrightarrow>
            findById (user_id req) db = None)"
  using assms
  by (auto simp: updatePassword_def fail_def throw_def split: option.splits)

theorem updatePassword_missing_user_throws_witness:
  "findById ''9'' db0 = None
   \<and> updatePassword env0 db0
        (req0\<lparr>body_password := Some ''pw1'', body_newPassword := Some ''pw9'', user_id := ''9''\<rparr>)
       = \<lparr>store = db0, saves = [], res = res0, signal = Threw TypeError\<rparr>
   \<and> findById ''1'' db0 = Some alice
   \<and> signal (updatePassword env0 db0
        (req0\<lparr>body_password := Some ''pw1'', body_newPassword := Some ''pw9''\<rparr>)) = Sent"
proof -
  let ?r = "req0\<lparr>body_password := Some ''pw1'', body_newPassword := Some ''pw9'', user_id := ''9''\<rparr>"
  have h: "findById ''9'' db0 = None" "findById ''1'' db0 = Some alice"
    by (simp_all add: sample_defs)
  have s: "signal (updatePassword env0 db0
        (req0\<lparr>body_password := Some ''pw1'', body_newPassword := Some ''pw9''\<rparr>)) = Sent"
    by (simp add: updatePassword_def sample_defs save_def preSave_def Let_def)
  from updatePassword_missing_user_throws [of ?r "''pw1''" "''pw9''" db0 env0]
  show ?thesis using h s by simp
qed

subsection \<open>Refresh\<close>

text \<open>
  C6. A refresh request that succeeds answers \<open>STATUS_OK\<close> with a body that holds the
  access token signed for the user who stores the cookie's token, and changes nothing
  else: the collection is the same, nothing is saved, no cookie is set or cleared.
\<close>

theorem refresh_success_frame:
  assumes "signal (getNewAccessToken env db req) = Sent"
  shows "\<exists>t u. cookies_jwt req = Some t
            \<and> findOne (\<lambda>u. refreshToken u = Some t) db = Some u
            \<and> getNewAccessToken env db req =
                \<lparr>store = db, saves = [],
                 res = \<lparr>status_code = Some STATUS_OK,
                        body = Some [(''accessToken'', JStr (signAccessToken env u))],
                        cookie_ops = []\<rparr>,
                 signal = Sent\<rparr>"
  using assms
  by (auto simp: getNewAccessToken_def verifyCallback_def fail_def throw_def send_json_def
        res0_def Let_def split: option.splits if_splits prod.splits)

theorem refresh_success_frame_witness:
  "signal (getNewAccessToken env0 db0 (req0\<lparr>cookies_jwt := Some ''rt-1''\<rparr>)) = Sent
   \<and> store (getNewAccessToken env0 db0 (req0\<lparr>cookies_jwt := Some ''rt-1''\<rparr>)) = db0
   \<and> saves (getNewAccessToken env0 db0 (req0\<lparr>cookies_jwt := Some ''rt-1''\<rparr>)) = []
   \<and> cookie_ops (res (getNewAccessToken env0 db0 (req0\<lparr>cookies_jwt := Some ''rt-1''\<rparr>))) = []
   \<and> body (res (getNewAccessToken env0 db0 (req0\<lparr>cookies_jwt := Some ''rt-1''\<rparr>)))
       = Some [(''accessToken'', JStr (signAccessToken env0 alice))]"
proof -
  let ?r = "req0\<lparr>cookies_jwt := Some ''rt-1''\<rparr>"
  have h: "signal (getNewAccessToken env0 db0 ?r) = Sent"
    by (simp add: getNewAccessToken_def verifyCallback_def sample_defs)
  have f: "findOne (\<lambda>u. refreshToken u = Some ''rt-1'') db0 = Some alice"
    by (simp add: sample_defs)
  from refresh_success_frame [OF h] obtain t u where
    "cookies_jwt ?r = Some t" "findOne (\<lambda>u. refreshToken u = Some t) db0 = Some u"
    "getNewAccessToken env0 db0 ?r =
       \<lparr>store = db0, saves = [],
        res = \<lparr>status_code = Some STATUS_OK,
               body = Some [(''accessToken'', JStr (signAccessToken env0 u))],
               cookie_ops = []\<rparr>,
        signal = Sent\<rparr>"
    by blast
  with f show ?thesis by (simp add: req0_def)
qed

text \<open>
  The refresh handler when verification fails: the token library calls back with an error
  and no payload, and reading \<^verbatim>\<open>decoded.id\<close> throws. With a payload that carries an
  identifier, an error or a different subject gives the forbidden error.
\<close>

lemma refresh_verification_error_throws:
  assumes "cookies_jwt req = Some t" "t \<noteq> []"
    and "findOne (\<lambda>u. refreshToken u = Some t) db = Some u"
    and "jwt_verify env t = (Some e, None)"
  shows "getNewAccessToken env db req =
           \<lparr>store = db, saves = [], res = res0, signal = Threw TypeError\<rparr>"
  using assms by (simp add: getNewAccessToken_def verifyCallback_def throw_def)

lemma refresh_wrong_subject_forbidden:
  assumes "cookies_jwt req = Some t" "t \<noteq> []"
    and "findOne (\<lambda>u. refreshToken u = Some t) db = Some u"
    and "jwt_verify env t = (err, Some d)" "claim_id d = Some i" "err \<noteq> None \<or> i \<noteq> uid u"
  shows "getNewAccessToken env db req =
           \<lparr>store = db, saves = [], res = res0,
            signal = Next ''Access expired'' STATUS_FORBIDDEN\<rparr>"
  using assms by (auto simp: getNewAccessToken_def verifyCallback_def fail_def)

text \<open>
  C1. The refresh handler on a cookie token that a user stores and that has expired:
  \<^verbatim>\<open>jwt.verify\<close> calls back with the error and no payload, the callback reads
  \<^verbatim>\<open>decoded.id\<close> before it tests \<^verbatim>\<open>err\<close>, and the handler ends with a TypeError
  instead of \<open>Access expired\<close> with \<open>STATUS_FORBIDDEN\<close>.
\<close>

theorem refresh_expired_token_throws:
  "findOne (\<lambda>u. refreshToken u = Some ''exp-2'') db0 = Some bob
   \<and> jwt_verify env0 ''exp-2'' = (Some TokenExpiredError, None)
   \<and> getNewAccessToken env0 db0 (req0\<lparr>cookies_jwt := Some ''exp-2''\<rparr>) =
       \<lparr>store = db0, saves = [], res = res0, signal = Threw TypeError\<rparr>"
  by (simp add: sample_defs getNewAccessToken_def verifyCallback_def throw_def)

text \<open>The success bodies built in the controller beside the refresh handler.\<close>

lemma logout_success_flag:
  "signal (logoutHandler env db req) = Sent \<Longrightarrow>
     \<exists>b. body (res (logoutHandler env db req)) = Some b \<and> map_of b ''success'' = Some (JBool True)"
  by (auto simp: logoutHandler_def fail_def throw_def send_json_def save_unvalidated Let_def
        split: option.splits if_splits)

lemma forgot_success_flag:
  "signal (forgotPassword env accepts now db req) = Sent \<Longrightarrow>
     \<exists>b. body (res (forgotPassword env accepts now db req)) = Some b
        \<and> map_of b ''success'' = Some (JBool True)"
  by (auto simp: forgotPassword_def fail_def throw_def send_json_def trySave_unvalidated
        signResetPasswordToken_def split: option.splits if_splits)

lemma update_success_flag:
  "signal (updatePassword env db req) = Sent \<Longrightarrow>
     \<exists>b. body (res (updatePassword env db req)) = Some b
        \<and> map_of b ''success'' = Some (JBool True)"
  by (auto simp: updatePassword_def fail_def throw_def send_json_def save_def preSave_def Let_def
        split: option.splits if_splits)

text \<open>
  C5. The body of a successful refresh response holds the access token only: it has no
  field \<open>success\<close>, while the success bodies of logout, forgot-password and
  update-password carry \<open>success: true\<close>.
\<close>

theorem refresh_success_without_flag:
  "getNewAccessToken env0 db0 (req0\<lparr>cookies_jwt := Some ''rt-1''\<rparr>) =
     \<lparr>store = db0, saves = [],
      res = \<lparr>status_code = Some STATUS_OK,
             body = Some [(''accessToken'', JStr ''at-1'')], cookie_ops = []\<rparr>,
      signal = Sent\<rparr>
   \<and> map_of [(''accessToken'', JStr ''at-1'')] ''success'' = None"
  by (simp add: sample_defs getNewAccessToken_def verifyCallback_def send_json_def res0_def)

end
